theory Spec2Isabelle
  imports Main
begin

section \<open>Data model\<close>

text \<open>
  The two tables of the security migration (\<^verbatim>\<open>login_attempts\<close>,
  \<^verbatim>\<open>security_events\<close>) and the values the TypeScript code moves around.
  Timestamps are integers counting milliseconds, the unit of \<^verbatim>\<open>Date.now()\<close>;
  a table is the list of its rows in insertion order. The \<^verbatim>\<open>id\<close> column
  (a generated UUID that no query of the code reads) is left out, and the columns hold the
  values the inserting functions always supply.
\<close>

datatype json = JString string | JBool bool | JObject "(string \<times> json) list"

record login_attempt =
  email :: string
  ip_address :: string
  user_agent :: string
  successful :: bool
  attempted_at :: int

datatype SecurityEventType =
    LOGIN_SUCCESS | LOGIN_FAILURE | ACCOUNT_LOCKED | PASSWORD_RESET | PASSWORD_CHANGE
  | MFA_ENABLED | MFA_DISABLED | SUSPICIOUS_ACTIVITY | DATA_EXPORT | DATA_DELETION
  | PAYMENT_CHANGE | SUBSCRIPTION_CREATED | SUBSCRIPTION_CANCELLED | API_KEY_CREATED
  | API_KEY_REVOKED | UNAUTHORIZED_ACCESS | RATE_LIMIT_EXCEEDED

record security_event =
  user_id :: "string option"
  event_type :: SecurityEventType
  metadata :: "(string \<times> json) list"
  event_ip_address :: string
  event_user_agent :: string
  created_at :: int

record database =
  login_attempts :: "login_attempt list"
  security_events :: "security_event list"

text \<open>\<^verbatim>\<open>n * 60 * 1000\<close>: a number of minutes in milliseconds.\<close>

definition minutes :: "int \<Rightarrow> int" where
  "minutes n = n * 60 * 1000"

section \<open>Asynchronous functions over the store\<close>

text \<open>
  An \<^verbatim>\<open>async\<close> function either returns a value or throws (its promise rejects);
  it runs against the database and leaves it in a new state. Console output is not part of
  the state. One request is evaluated at one instant \<open>now\<close>, read both by
  \<^verbatim>\<open>Date.now()\<close> and by the SQL \<^verbatim>\<open>NOW()\<close>.
\<close>

datatype 'a outcome = Returns 'a | Throws string

type_synonym 'a async = "database \<Rightarrow> 'a outcome \<times> database"

definition return :: "'a \<Rightarrow> 'a async" where
  "return x = (\<lambda>db. (Returns x, db))"

definition throw :: "string \<Rightarrow> 'a async" where
  "throw e = (\<lambda>db. (Throws e, db))"

text \<open>\<^verbatim>\<open>const x = await m; k(x)\<close>: a rejection of \<open>m\<close> skips \<open>k\<close>.\<close>

definition await :: "'a async \<Rightarrow> ('a \<Rightarrow> 'b async) \<Rightarrow> 'b async" where
  "await m k = (\<lambda>db. case m db of
                       (Returns x, db') \<Rightarrow> k x db'
                     | (Throws e, db') \<Rightarrow> (Throws e, db'))"

text \<open>\<^verbatim>\<open>try { m } catch (error) { h(error) }\<close>.\<close>

definition try_catch :: "'a async \<Rightarrow> (string \<Rightarrow> 'a async) \<Rightarrow> 'a async" where
  "try_catch m h = (\<lambda>db. case m db of
                          (Returns x, db') \<Rightarrow> (Returns x, db')
                        | (Throws e, db') \<Rightarrow> h e db')"

section \<open>The durable store\<close>

text \<open>
  The SQL function of the security migration (\<^verbatim>\<open>src/unnamed/part_000\<close>), on the rows of \<^verbatim>\<open>login_attempts\<close>:
  \<^verbatim>\<open>SELECT COUNT(*) ... WHERE email = user_email AND ip_address = user_ip
  AND successful = FALSE AND attempted_at > NOW() - INTERVAL '15 minutes';
  RETURN failed_attempts >= 5;\<close>
\<close>

definition is_account_locked :: "login_attempt list \<Rightarrow> int \<Rightarrow> string \<Rightarrow> string \<Rightarrow> bool" where
  "is_account_locked rows now user_email user_ip =
     (let failed_attempts =
            length (filter (\<lambda>r. email r = user_email \<and> ip_address r = user_ip
                               \<and> successful r = False
                               \<and> attempted_at r > now - minutes 15) rows)
      in failed_attempts \<ge> 5)"

text \<open>
  Modelled from the spec: the durable store of its section 6 (a relational store providing
  the two tables), reached through the Supabase client \<^verbatim>\<open>supabaseAdmin\<close> of
  \<^verbatim>\<open>utils/supabase-admin\<close>, which is not among the sources. The answers have
  the format of the client library the code is written against: a call answers with an
  object \<^verbatim>\<open>{ data, count, error }\<close>. Each kind of call has one of three
  behaviours: the store executes it (\<open>Healthy\<close>), the store refuses it and the client
  answers \<^verbatim>\<open>{ data: null, error }\<close> (\<open>Error_reply\<close>), or the awaited call
  rejects (\<open>Rejects\<close>), the case the \<^verbatim>\<open>try/catch\<close> blocks of the callers
  are written for. The client as the code calls it (no \<^verbatim>\<open>throwOnError\<close>)
  answers a failure of the store or of the transport with an error reply; a rejection is
  kept so that every \<^verbatim>\<open>catch\<close> block has a path in the model. A \<^verbatim>\<open>select\<close> with \<^verbatim>\<open>head: true\<close> is answered
  without rows: \<^verbatim>\<open>data\<close> is null and the number of matching rows is in
  \<^verbatim>\<open>count\<close>. Reads leave the database as it is; a write that is not executed
  does too.
\<close>

datatype store_call =
    Rpc_is_account_locked
  | Select_login_attempts | Insert_login_attempts | Delete_login_attempts
  | Select_security_events | Insert_security_events

datatype behaviour = Healthy | Error_reply string | Rejects string

type_synonym store = "store_call \<Rightarrow> behaviour"

record 'a reply =
  data :: "'a option"
  count :: "nat option"
  error :: "string option"

definition answer :: "behaviour \<Rightarrow> 'a option \<Rightarrow> nat option \<Rightarrow> 'a reply outcome" where
  "answer b d c =
     (case b of
        Healthy \<Rightarrow> Returns \<lparr>data = d, count = c, error = None\<rparr>
      | Error_reply m \<Rightarrow> Returns \<lparr>data = None, count = None, error = Some m\<rparr>
      | Rejects m \<Rightarrow> Throws m)"

definition rpc_is_account_locked :: "store \<Rightarrow> int \<Rightarrow> string \<Rightarrow> string \<Rightarrow> bool reply async" where
  "rpc_is_account_locked S now user_email user_ip = (\<lambda>db.
     (answer (S Rpc_is_account_locked)
        (Some (is_account_locked (login_attempts db) now user_email user_ip)) None, db))"

definition select_login_attempts ::
  "store \<Rightarrow> (login_attempt \<Rightarrow> bool) \<Rightarrow> bool \<Rightarrow> login_attempt list reply async" where
  "select_login_attempts S P head = (\<lambda>db.
     (let rows = filter P (login_attempts db) in
      if head then answer (S Select_login_attempts) None (Some (length rows))
      else answer (S Select_login_attempts) (Some rows) None, db))"

definition insert_login_attempts :: "store \<Rightarrow> login_attempt \<Rightarrow> unit reply async" where
  "insert_login_attempts S row = (\<lambda>db.
     (answer (S Insert_login_attempts) None None,
      if S Insert_login_attempts = Healthy
      then db\<lparr>login_attempts := login_attempts db @ [row]\<rparr> else db))"

definition delete_login_attempts :: "store \<Rightarrow> (login_attempt \<Rightarrow> bool) \<Rightarrow> unit reply async" where
  "delete_login_attempts S P = (\<lambda>db.
     (answer (S Delete_login_attempts) None None,
      if S Delete_login_attempts = Healthy
      then db\<lparr>login_attempts := filter (\<lambda>r. \<not> P r) (login_attempts db)\<rparr> else db))"

definition select_security_events ::
  "store \<Rightarrow> (security_event \<Rightarrow> bool) \<Rightarrow> security_event list reply async" where
  "select_security_events S P = (\<lambda>db.
     (answer (S Select_security_events) (Some (filter P (security_events db))) None, db))"

definition insert_security_events :: "store \<Rightarrow> security_event \<Rightarrow> unit reply async" where
  "insert_security_events S row = (\<lambda>db.
     (answer (S Insert_security_events) None None,
      if S Insert_security_events = Healthy
      then db\<lparr>security_events := security_events db @ [row]\<rparr> else db))"

section \<open>Authentication security utilities\<close>

text \<open>
  The functions of \<^verbatim>\<open>utils/auth-security\<close> (\<^verbatim>\<open>src/unnamed/part_006\<close>).
  The fields of \<^verbatim>\<open>LoginAttemptData\<close> carry a prefix, the ledger row having
  fields of the same names.
\<close>

record AccountLockoutResult =
  locked :: bool
  message :: "string option"
  remainingAttempts :: "int option"

definition checkAccountLockout :: "store \<Rightarrow> int \<Rightarrow> string \<Rightarrow> string \<Rightarrow> AccountLockoutResult async" where
  "checkAccountLockout S now email' ipAddress =
     try_catch
       (await (rpc_is_account_locked S now email' ipAddress) (\<lambda>r.
          if error r \<noteq> None then
            return \<lparr>locked = False, message = None, remainingAttempts = None\<rparr>
          else if data r = Some True then
            return \<lparr>locked = True,
                    message = Some ''Account temporarily locked due to multiple failed login attempts. Please try again in 15 minutes.'',
                    remainingAttempts = None\<rparr>
          else
            await (select_login_attempts S
                     (\<lambda>a. email a = email' \<and> ip_address a = ipAddress \<and> successful a = False
                           \<and> attempted_at a \<ge> now - minutes 15) False) (\<lambda>attempts.
              let failedCount = (case data attempts of None \<Rightarrow> 0 | Some rows \<Rightarrow> length rows);
                  remaining = max 0 (5 - int failedCount)
              in return \<lparr>locked = False, message = None, remainingAttempts = Some remaining\<rparr>)))
       (\<lambda>e. return \<lparr>locked = False, message = None, remainingAttempts = None\<rparr>)"



definition clearFailedAttempts :: "store \<Rightarrow> string \<Rightarrow> string \<Rightarrow> unit async" where
  "clearFailedAttempts S email' ipAddress =
     try_catch
       (await (delete_login_attempts S
                 (\<lambda>a. email a = email' \<and> ip_address a = ipAddress \<and> successful a = False))
          (\<lambda>_. return ()))
       (\<lambda>e. return ())"

text \<open>
  The query asks for \<^verbatim>\<open>{ count: 'exact', head: true }\<close> and the function then
  returns \<^verbatim>\<open>data?.length || 0\<close>.
\<close>

definition getFailedAttemptsCount :: "store \<Rightarrow> int \<Rightarrow> string \<Rightarrow> string \<Rightarrow> int \<Rightarrow> nat async" where
  "getFailedAttemptsCount S now email' ipAddress windowMinutes =
     try_catch
       (await (select_login_attempts S
                 (\<lambda>a. email a = email' \<and> ip_address a = ipAddress \<and> successful a = False
                       \<and> attempted_at a \<ge> now - minutes windowMinutes) True) (\<lambda>r.
          if error r \<noteq> None then return 0
          else return (case data r of None \<Rightarrow> 0 | Some rows \<Rightarrow> length rows)))
       (\<lambda>e. return 0)"

text \<open>\<^verbatim>\<open>new Set(data.map(d => d.email)).size > 10\<close>.\<close>

definition checkSuspiciousIP :: "store \<Rightarrow> int \<Rightarrow> string \<Rightarrow> bool async" where
  "checkSuspiciousIP S now ipAddress =
     try_catch
       (await (select_login_attempts S
                 (\<lambda>a. ip_address a = ipAddress \<and> successful a = False
                       \<and> attempted_at a \<ge> now - minutes 60) False) (\<lambda>r.
          case data r of
            None \<Rightarrow> return False
          | Some rows \<Rightarrow>
              let uniqueEmails = remdups (map email rows)
              in return (length uniqueEmails > 10)))
       (\<lambda>e. return False)"

section \<open>Security monitoring\<close>

text \<open>
  The functions of \<^verbatim>\<open>lib/security-monitoring\<close> (the second file of
  \<^verbatim>\<open>src/unnamed/part_005\<close>).
\<close>

definition shouldAlert :: "SecurityEventType \<Rightarrow> bool" where
  "shouldAlert eventType \<longleftrightarrow>
     eventType \<in> set [SUSPICIOUS_ACTIVITY, ACCOUNT_LOCKED, UNAUTHORIZED_ACCESS, DATA_DELETION]"

text \<open>The alert only writes to the console.\<close>

definition alertSecurityTeam ::
  "string option \<Rightarrow> SecurityEventType \<Rightarrow> (string \<times> json) list \<Rightarrow> unit async" where
  "alertSecurityTeam userId eventType metadata' = return ()"

definition logSecurityEvent ::
  "store \<Rightarrow> int \<Rightarrow> string option \<Rightarrow> SecurityEventType \<Rightarrow> (string \<times> json) list
     \<Rightarrow> string \<Rightarrow> string \<Rightarrow> unit async" where
  "logSecurityEvent S now userId eventType metadata' ipAddress userAgent =
     try_catch
       (await (insert_security_events S
                 \<lparr>user_id = userId, event_type = eventType, metadata = metadata',
                  event_ip_address = ipAddress, event_user_agent = userAgent,
                  created_at = now\<rparr>) (\<lambda>_.
          if shouldAlert eventType then alertSecurityTeam userId eventType metadata'
          else return ()))
       (\<lambda>e. return ())"

record SuspiciousActivity =
  suspicious :: bool
  reason :: "string option"

definition detectSuspiciousActivity :: "store \<Rightarrow> int \<Rightarrow> string \<Rightarrow> string \<Rightarrow> SuspiciousActivity async" where
  "detectSuspiciousActivity S now userId ipAddress =
     await (select_security_events S
              (\<lambda>ev. user_id ev = Some userId \<and> event_type ev = LOGIN_FAILURE
                    \<and> created_at ev \<ge> now - minutes 15)) (\<lambda>failedLogins.
       if (case data failedLogins of None \<Rightarrow> False | Some rows \<Rightarrow> length rows \<ge> 5) then
         return \<lparr>suspicious = True, reason = Some ''Multiple failed login attempts''\<rparr>
       else
         await (select_security_events S
                  (\<lambda>ev. user_id ev = Some userId \<and> created_at ev \<ge> now - minutes 60))
           (\<lambda>recentEvents.
              case data recentEvents of
                None \<Rightarrow> return \<lparr>suspicious = False, reason = None\<rparr>
              | Some rows \<Rightarrow>
                  let uniqueIps = remdups (map event_ip_address rows) in
                  if length uniqueIps > 3 then
                    return \<lparr>suspicious = True,
                            reason = Some ''Multiple IP addresses in short time''\<rparr>
                  else return \<lparr>suspicious = False, reason = None\<rparr>))"

section \<open>The secure-login route\<close>

text \<open>
  The handler of \<^verbatim>\<open>src/app/api/auth/secure-login/route.ts\<close> and its two local
  helpers, which bear the names of two utilities and are prefixed here.
  The request as the handler reads it: the values of \<^verbatim>\<open>getClientIp(req)\<close> and
  \<^verbatim>\<open>getUserAgent(req)\<close>, and the outcome of \<^verbatim>\<open>await req.json()\<close>, whose
  \<^verbatim>\<open>email\<close> and \<^verbatim>\<open>password\<close> members are strings when present. The rate
  limiter (\<^verbatim>\<open>ajAuth.protect(req)\<close>, read through \<^verbatim>\<open>isDenied()\<close>) and the
  identity provider (\<^verbatim>\<open>supabase.auth.signInWithPassword\<close>) are external
  collaborators and parameters of the handler; neither touches the two tables.
\<close>

record credentials =
  cred_email :: "string option"
  cred_password :: "string option"

record login_request =
  ipAddress :: string
  userAgent :: string
  json_body :: "credentials outcome"

record user =
  uid :: string
  user_email :: string

record auth_response =
  auth_user :: "user option"
  auth_session :: json
  auth_error :: "string option"

record http_response =
  status :: nat
  body :: "(string \<times> json) list"

definition external :: "'a outcome \<Rightarrow> 'a async" where
  "external r = (\<lambda>db. (r, db))"

definition route_checkAccountLockout ::
  "store \<Rightarrow> int \<Rightarrow> string \<Rightarrow> string \<Rightarrow> AccountLockoutResult async" where
  "route_checkAccountLockout S now email' ipAddress' =
     await (rpc_is_account_locked S now email' ipAddress') (\<lambda>r.
       if error r \<noteq> None \<or> data r = Some True then
         return \<lparr>locked = True,
                 message = Some ''Account temporarily locked due to multiple failed attempts. Try again in 15 minutes.'',
                 remainingAttempts = None\<rparr>
       else return \<lparr>locked = False, message = None, remainingAttempts = None\<rparr>)"

definition route_logLoginAttempt ::
  "store \<Rightarrow> int \<Rightarrow> string \<Rightarrow> string \<Rightarrow> bool \<Rightarrow> string \<Rightarrow> unit async" where
  "route_logLoginAttempt S now email' ipAddress' successful' userAgent' =
     await (insert_login_attempts S
              \<lparr>email = email', ip_address = ipAddress', user_agent = userAgent',
               successful = successful', attempted_at = now\<rparr>) (\<lambda>_. return ())"

definition POST ::
  "store \<Rightarrow> bool outcome \<Rightarrow> (string \<Rightarrow> string \<Rightarrow> auth_response outcome) \<Rightarrow> int
     \<Rightarrow> login_request \<Rightarrow> http_response async" where
  "POST S protect signInWithPassword now req =
     try_catch
       (await (external protect) (\<lambda>isDenied.
          if isDenied then
            return \<lparr>status = 429,
                    body = [(''error'', JString ''Too many login attempts. Please try again later.''),
                            (''retryAfter'', JString ''5 minutes'')]\<rparr>
          else
            await (external (json_body req)) (\<lambda>c.
              case (cred_email c, cred_password c) of
                (Some email', Some password) \<Rightarrow>
                  if email' = [] \<or> password = [] then
                    return \<lparr>status = 400,
                            body = [(''error'', JString ''Email and password are required'')]\<rparr>
                  else
                    await (route_checkAccountLockout S now email' (ipAddress req)) (\<lambda>lockout.
                      if locked lockout then
                        await (logSecurityEvent S now None ACCOUNT_LOCKED
                                 [(''email'', JString email'),
                                  (''reason'', JString ''Too many failed attempts'')]
                                 (ipAddress req) (userAgent req)) (\<lambda>_.
                          return \<lparr>status = 429,
                                  body = (case message lockout of
                                            None \<Rightarrow> []
                                          | Some m \<Rightarrow> [(''error'', JString m)])\<rparr>)
                      else
                        await (external (signInWithPassword email' password)) (\<lambda>res.
                          await (route_logLoginAttempt S now email' (ipAddress req)
                                   (auth_error res = None) (userAgent req)) (\<lambda>_.
                            case auth_error res of
                              Some m \<Rightarrow>
                                await (logSecurityEvent S now None LOGIN_FAILURE
                                         [(''email'', JString email'), (''reason'', JString m)]
                                         (ipAddress req) (userAgent req)) (\<lambda>_.
                                  return \<lparr>status = 401,
                                          body = [(''error'', JString ''Invalid email or password'')]\<rparr>)
                            | None \<Rightarrow>
                                (case auth_user res of
                                   None \<Rightarrow> throw ''TypeError''
                                 | Some u \<Rightarrow>
                                     await (logSecurityEvent S now (Some (uid u)) LOGIN_SUCCESS
                                              [(''method'', JString ''password''),
                                               (''mfa_used'', JBool False)]
                                              (ipAddress req) (userAgent req)) (\<lambda>_.
                                       return \<lparr>status = 200,
                                               body = [(''success'', JBool True),
                                                       (''user'', JObject [(''id'', JString (uid u)),
                                                                           (''email'', JString (user_email u))]),
                                                       (''session'', auth_session res)]\<rparr>)))))
              | _ \<Rightarrow>
                  return \<lparr>status = 400,
                          body = [(''error'', JString ''Email and password are required'')]\<rparr>)))
       (\<lambda>error'.
          await (logSecurityEvent S now None LOGIN_FAILURE
                   [(''error'', JString ''Internal error during login'')]
                   (ipAddress req) (userAgent req)) (\<lambda>_.
            return \<lparr>status = 500,
                    body = [(''error'', JString ''An error occurred during login'')]\<rparr>))"

section \<open>Reference notions of the specification\<close>

text \<open>
  The trailing window of length \<open>w\<close> at the instant \<open>now\<close>, closed at both ends
  as the specification writes it (\<open>[windowStart, now]\<close>), and the same window without
  its oldest instant.
\<close>

definition trailing :: "int \<Rightarrow> int \<Rightarrow> int \<Rightarrow> bool" where
  "trailing now w t \<longleftrightarrow> now - w \<le> t \<and> t \<le> now"

definition trailing_open :: "int \<Rightarrow> int \<Rightarrow> int \<Rightarrow> bool" where
  "trailing_open now w t \<longleftrightarrow> now - w < t \<and> t \<le> now"

text \<open>The window of all instants.\<close>

definition ever :: "int \<Rightarrow> bool" where
  "ever t \<longleftrightarrow> True"

text \<open>
  The failed attempts of an \<open>(identity, originIp)\<close> pair whose timestamp lies in a
  window: the quantity the lockout threshold is compared with.
\<close>

definition pair_failures ::
  "login_attempt list \<Rightarrow> string \<Rightarrow> string \<Rightarrow> (int \<Rightarrow> bool) \<Rightarrow> login_attempt list" where
  "pair_failures rows identity originIp window =
     filter (\<lambda>r. email r = identity \<and> ip_address r = originIp \<and> \<not> successful r
                 \<and> window (attempted_at r)) rows"

text \<open>The failed attempts made from one origin IP in a window, whatever the identity.\<close>

definition ip_failures ::
  "login_attempt list \<Rightarrow> string \<Rightarrow> (int \<Rightarrow> bool) \<Rightarrow> login_attempt list" where
  "ip_failures rows originIp window =
     filter (\<lambda>r. ip_address r = originIp \<and> \<not> successful r \<and> window (attempted_at r)) rows"

text \<open>The security events of a subject in a window.\<close>

definition subject_events ::
  "security_event list \<Rightarrow> string \<Rightarrow> (int \<Rightarrow> bool) \<Rightarrow> security_event list" where
  "subject_events evs subject window =
     filter (\<lambda>ev. user_id ev = Some subject \<and> window (created_at ev)) evs"

subsection \<open>Scenario data\<close>

definition healthy :: store where
  "healthy = (\<lambda>c. Healthy)"

text \<open>A store that fails every write: the client answers each with an error.\<close>

definition writes_failing :: store where
  "writes_failing =
     (\<lambda>c. case c of
            Insert_login_attempts \<Rightarrow> Error_reply ''fetch failed''
          | Delete_login_attempts \<Rightarrow> Error_reply ''fetch failed''
          | Insert_security_events \<Rightarrow> Error_reply ''fetch failed''
          | _ \<Rightarrow> Healthy)"

text \<open>A store that answers the lockout RPC with an error.\<close>

definition rpc_failing :: store where
  "rpc_failing =
     (\<lambda>c. case c of Rpc_is_account_locked \<Rightarrow> Error_reply ''connection refused''
                   | _ \<Rightarrow> Healthy)"

definition failure :: "string \<Rightarrow> string \<Rightarrow> int \<Rightarrow> login_attempt" where
  "failure e i t = \<lparr>email = e, ip_address = i, user_agent = ''Mozilla/5.0'',
                    successful = False, attempted_at = t\<rparr>"

text \<open>Five failures of one pair within two minutes.\<close>

definition alice_ledger :: "login_attempt list" where
  "alice_ledger = [failure ''alice@example.com'' ''1.2.3.4'' 1000,
                   failure ''alice@example.com'' ''1.2.3.4'' 31000,
                   failure ''alice@example.com'' ''1.2.3.4'' 61000,
                   failure ''alice@example.com'' ''1.2.3.4'' 91000,
                   failure ''alice@example.com'' ''1.2.3.4'' 120000]"

definition alice_request :: login_request where
  "alice_request = \<lparr>ipAddress = ''1.2.3.4'', userAgent = ''Mozilla/5.0'',
                     json_body = Returns \<lparr>cred_email = Some ''alice@example.com'',
                                          cred_password = Some ''correct horse''\<rparr>\<rparr>"

definition accepting :: "string \<Rightarrow> string \<Rightarrow> auth_response outcome" where
  "accepting e p = Returns \<lparr>auth_user = Some \<lparr>uid = ''user-1'', user_email = e\<rparr>,
                             auth_session = JString ''session-1'', auth_error = None\<rparr>"

definition refusing :: "string \<Rightarrow> string \<Rightarrow> auth_response outcome" where
  "refusing e p = Returns \<lparr>auth_user = None, auth_session = JObject [],
                            auth_error = Some ''Invalid login credentials''\<rparr>"

text \<open>One origin failing once against each of eleven identities.\<close>

definition fanout_ledger :: "login_attempt list" where
  "fanout_ledger =
     map (\<lambda>e. failure e ''5.5.5.5'' 1000)
       [''u01@example.com'', ''u02@example.com'', ''u03@example.com'', ''u04@example.com'',
        ''u05@example.com'', ''u06@example.com'', ''u07@example.com'', ''u08@example.com'',
        ''u09@example.com'', ''u10@example.com'', ''u11@example.com'']"

definition event :: "string \<Rightarrow> SecurityEventType \<Rightarrow> string \<Rightarrow> int \<Rightarrow> security_event" where
  "event u t i at = \<lparr>user_id = Some u, event_type = t, metadata = [], event_ip_address = i,
                     event_user_agent = ''Mozilla/5.0'', created_at = at\<rparr>"

text \<open>Five login failures of one subject, and one subject seen from four origins.\<close>

definition failing_events :: "security_event list" where
  "failing_events = map (event ''user-1'' LOGIN_FAILURE ''1.2.3.4'') [1000, 2000, 3000, 4000, 5000]"

definition roaming_events :: "security_event list" where
  "roaming_events = [event ''user-1'' LOGIN_SUCCESS ''1.2.3.4'' 1000,
                     event ''user-1'' PASSWORD_CHANGE ''5.6.7.8'' 2000,
                     event ''user-1'' LOGIN_SUCCESS ''9.9.9.9'' 3000,
                     event ''user-1'' DATA_EXPORT ''7.7.7.7'' 4000]"

section \<open>Properties\<close>

lemmas async_defs = return_def throw_def await_def try_catch_def external_def answer_def

lemmas store_defs = rpc_is_account_locked_def select_login_attempts_def
  insert_login_attempts_def delete_login_attempts_def select_security_events_def
  insert_security_events_def

lemmas scenario_defs = healthy_def writes_failing_def rpc_failing_def failure_def
  alice_ledger_def alice_request_def accepting_def refusing_def fanout_ledger_def event_def
  failing_events_def roaming_events_def

lemmas window_defs = trailing_def trailing_open_def minutes_def

subsection \<open>The lockout decision\<close>

lemma is_account_locked_window:
  assumes "\<forall>r\<in>set rows. attempted_at r \<le> now"
  shows "is_account_locked rows now e i
           \<longleftrightarrow> 5 \<le> length (pair_failures rows e i (trailing_open now (minutes 15)))"
proof -
  have "filter (\<lambda>r. email r = e \<and> ip_address r = i \<and> successful r = False
                     \<and> attempted_at r > now - minutes 15) rows
      = pair_failures rows e i (trailing_open now (minutes 15))"
    unfolding pair_failures_def trailing_open_def using assms by (intro filter_cong) auto
  then show ?thesis by (simp add: is_account_locked_def)
qed

lemma is_account_locked_other_rows:
  assumes "\<forall>r\<in>set extra. ip_address r \<noteq> i"
  shows "is_account_locked (rows @ extra) now e i = is_account_locked rows now e i"
proof -
  have "filter (\<lambda>r. email r = e \<and> ip_address r = i \<and> successful r = False
                     \<and> attempted_at r > now - minutes 15) extra = []"
    using assms by (auto simp: filter_empty_conv)
  then show ?thesis by (simp add: is_account_locked_def)
qed

lemma checkAccountLockout_locked:
  assumes "S Rpc_is_account_locked = Healthy"
  shows "\<exists>res. checkAccountLockout S now e i db = (Returns res, db)
           \<and> (locked res \<longleftrightarrow> is_account_locked (login_attempts db) now e i)"
  using assms
  by (cases "S Select_login_attempts")
     (simp_all add: checkAccountLockout_def store_defs async_defs Let_def)

text \<open>
  C1. On a ledger whose rows are not dated after the evaluation instant, the SQL function
  \<open>is_account_locked\<close> answers true exactly when at least 5 failed attempts of the very
  pair \<open>(e, i)\<close> are strictly less than 15 minutes old: its window is the trailing window
  without the oldest instant, the comparison with \<^verbatim>\<open>NOW() - INTERVAL '15 minutes'\<close>
  being strict. \<open>checkAccountLockout\<close> reports \<open>locked\<close> under the same
  condition whenever the RPC is answered, and rows of another origin IP, whatever their
  identity, never change the decision for the pair.
\<close>

theorem lockout_iff_five_failures_of_pair:
  assumes "\<forall>r\<in>set (login_attempts db). attempted_at r \<le> now"
  shows "(is_account_locked (login_attempts db) now e i
            \<longleftrightarrow> 5 \<le> length (pair_failures (login_attempts db) e i
                              (trailing_open now (minutes 15))))
       \<and> (\<forall>S. S Rpc_is_account_locked = Healthy \<longrightarrow>
             (\<exists>res. checkAccountLockout S now e i db = (Returns res, db)
                  \<and> (locked res
                       \<longleftrightarrow> 5 \<le> length (pair_failures (login_attempts db) e i
                                          (trailing_open now (minutes 15))))))
       \<and> (\<forall>extra. (\<forall>r\<in>set extra. ip_address r \<noteq> i) \<longrightarrow>
             is_account_locked (login_attempts db @ extra) now e i
               = is_account_locked (login_attempts db) now e i)"
  using is_account_locked_window[OF assms, of e i] checkAccountLockout_locked[of _ now e i db]
    is_account_locked_other_rows[of _ i "login_attempts db" now e]
  by metis

theorem lockout_iff_five_failures_of_pair_witness:
  "is_account_locked alice_ledger 121000 ''alice@example.com'' ''1.2.3.4''
   \<and> \<not> is_account_locked alice_ledger 121000 ''alice@example.com'' ''9.9.9.9''
   \<and> (\<exists>res. checkAccountLockout healthy 121000 ''alice@example.com'' ''1.2.3.4''
               \<lparr>login_attempts = alice_ledger, security_events = []\<rparr>
             = (Returns res, \<lparr>login_attempts = alice_ledger, security_events = []\<rparr>)
           \<and> locked res)
   \<and> is_account_locked (alice_ledger @ [failure ''alice@example.com'' ''9.9.9.9'' 120500])
        121000 ''alice@example.com'' ''1.2.3.4''"
proof -
  have h: "\<forall>r\<in>set (login_attempts \<lparr>login_attempts = alice_ledger, security_events = []\<rparr>).
             attempted_at r \<le> 121000"
    by (simp add: scenario_defs)
  have c: "5 \<le> length (pair_failures alice_ledger ''alice@example.com'' ''1.2.3.4''
                          (trailing_open 121000 (minutes 15)))"
    by (simp add: scenario_defs pair_failures_def window_defs)
  have d: "\<not> 5 \<le> length (pair_failures alice_ledger ''alice@example.com'' ''9.9.9.9''
                            (trailing_open 121000 (minutes 15)))"
    by (simp add: scenario_defs pair_failures_def window_defs)
  have e: "\<forall>r\<in>set [failure ''alice@example.com'' ''9.9.9.9'' 120500]. ip_address r \<noteq> ''1.2.3.4''"
    by (simp add: scenario_defs)
  have s: "healthy Rpc_is_account_locked = Healthy"
    by (simp add: healthy_def)
  show ?thesis
    using h c d e s
      lockout_iff_five_failures_of_pair[OF h, of "''alice@example.com''" "''1.2.3.4''"]
      lockout_iff_five_failures_of_pair[OF h, of "''alice@example.com''" "''9.9.9.9''"]
    by simp
qed

text \<open>
  With the closed window \<open>[now - 15 min, now]\<close> the equivalence fails: five failures of
  one pair that are exactly 15 minutes old lie in that window, and neither the SQL function
  nor \<open>checkAccountLockout\<close> reports the pair locked.
\<close>

theorem lockout_closed_window_counterexample:
  "\<not> is_account_locked (replicate 5 (failure ''alice@example.com'' ''1.2.3.4'' 100000))
        (100000 + minutes 15) ''alice@example.com'' ''1.2.3.4''
   \<and> fst (checkAccountLockout healthy (100000 + minutes 15) ''alice@example.com'' ''1.2.3.4''
            \<lparr>login_attempts = replicate 5 (failure ''alice@example.com'' ''1.2.3.4'' 100000),
             security_events = []\<rparr>)
       = Returns \<lparr>locked = False, message = None, remainingAttempts = Some 0\<rparr>
   \<and> length (pair_failures (replicate 5 (failure ''alice@example.com'' ''1.2.3.4'' 100000))
               ''alice@example.com'' ''1.2.3.4'' (trailing (100000 + minutes 15) (minutes 15))) = 5"
  by (simp add: is_account_locked_def checkAccountLockout_def store_defs async_defs Let_def
        pair_failures_def scenario_defs window_defs)

lemma pair_failures_open_le_closed:
  "length (pair_failures rows e i (trailing_open now w))
     \<le> length (pair_failures rows e i (trailing now w))"
proof -
  have "pair_failures rows e i (trailing_open now w)
          = filter (\<lambda>r. now - w < attempted_at r) (pair_failures rows e i (trailing now w))"
    unfolding pair_failures_def trailing_def trailing_open_def by (auto intro: filter_cong)
  then show ?thesis by simp
qed

lemma select_window_closed:
  assumes "\<forall>r\<in>set rows. attempted_at r \<le> now"
  shows "filter (\<lambda>a. email a = e \<and> ip_address a = i \<and> successful a = False
                      \<and> attempted_at a \<ge> now - w) rows
          = pair_failures rows e i (trailing now w)"
  unfolding pair_failures_def trailing_def using assms by (intro filter_cong) auto

text \<open>
  C7. When the store answers both queries and the pair has fewer than 5 failed attempts in
  the closed window \<open>[now - 15 min, now]\<close>, \<open>checkAccountLockout\<close> returns
  \<open>locked: false\<close> with \<open>remainingAttempts = max(0, 5 - failures)\<close>.
\<close>

theorem remaining_attempts_below_threshold:
  assumes "\<forall>r\<in>set (login_attempts db). attempted_at r \<le> now"
    and "S Rpc_is_account_locked = Healthy" and "S Select_login_attempts = Healthy"
    and "length (pair_failures (login_attempts db) e i (trailing now (minutes 15))) < 5"
  shows "checkAccountLockout S now e i db =
           (Returns \<lparr>locked = False, message = None,
                     remainingAttempts =
                       Some (max 0 (5 - int (length (pair_failures (login_attempts db) e i
                                                      (trailing now (minutes 15))))))\<rparr>, db)"
proof -
  have "length (pair_failures (login_attempts db) e i (trailing_open now (minutes 15))) < 5"
    using pair_failures_open_le_closed[of "login_attempts db" e i now "minutes 15"] assms(4)
    by linarith
  then have nl: "\<not> is_account_locked (login_attempts db) now e i"
    using is_account_locked_window[OF assms(1), of e i] by simp
  show ?thesis
    using nl assms(2,3) select_window_closed[OF assms(1), of e i "minutes 15"]
    by (simp add: checkAccountLockout_def store_defs async_defs Let_def)
qed

theorem remaining_attempts_below_threshold_witness:
  "length (pair_failures (take 3 alice_ledger) ''alice@example.com'' ''1.2.3.4''
             (trailing 121000 (minutes 15))) = 3
   \<and> checkAccountLockout healthy 121000 ''alice@example.com'' ''1.2.3.4''
        \<lparr>login_attempts = take 3 alice_ledger, security_events = []\<rparr>
      = (Returns \<lparr>locked = False, message = None, remainingAttempts = Some 2\<rparr>,
         \<lparr>login_attempts = take 3 alice_ledger, security_events = []\<rparr>)"
proof -
  have h: "\<forall>r\<in>set (login_attempts \<lparr>login_attempts = take 3 alice_ledger, security_events = []\<rparr>).
             attempted_at r \<le> 121000"
    by (simp add: scenario_defs)
  have c: "length (pair_failures
                     (login_attempts \<lparr>login_attempts = take 3 alice_ledger, security_events = []\<rparr>)
                     ''alice@example.com'' ''1.2.3.4'' (trailing 121000 (minutes 15))) = 3"
    by (simp add: scenario_defs pair_failures_def window_defs)
  have s: "healthy Rpc_is_account_locked = Healthy" "healthy Select_login_attempts = Healthy"
    by (simp_all add: healthy_def)
  show ?thesis
    using h c
      remaining_attempts_below_threshold[OF h s, of "''alice@example.com''" "''1.2.3.4''"]
    by simp
qed

subsection \<open>The attempt ledger\<close>

lemma getFailedAttemptsCount_zero:
  "getFailedAttemptsCount S now e i w db = (Returns 0, db)"
  by (cases "S Select_login_attempts")
     (simp_all add: getFailedAttemptsCount_def store_defs async_defs Let_def)

text \<open>
  C4. The count of the pair's failures in \<open>[windowStart, now]\<close> is not what
  \<open>getFailedAttemptsCount\<close> returns: the query is a head request, whose answer carries
  the number of rows in \<open>count\<close> and no rows in \<open>data\<close>, and the function returns
  the length of \<open>data\<close>. One failure of the pair, one minute old, is counted as 0.
\<close>

theorem getFailedAttemptsCount_ignores_count:
  "getFailedAttemptsCount healthy 960000 ''alice@example.com'' ''1.2.3.4'' 15
     \<lparr>login_attempts = [failure ''alice@example.com'' ''1.2.3.4'' 900000], security_events = []\<rparr>
   = (Returns 0,
      \<lparr>login_attempts = [failure ''alice@example.com'' ''1.2.3.4'' 900000], security_events = []\<rparr>)
   \<and> length (pair_failures [failure ''alice@example.com'' ''1.2.3.4'' 900000]
               ''alice@example.com'' ''1.2.3.4'' (trailing 960000 (minutes 15))) = 1"
  by (simp add: getFailedAttemptsCount_def store_defs async_defs Let_def scenario_defs
        pair_failures_def window_defs)


lemma logSecurityEvent_effect:
  "logSecurityEvent S now u t md ip ua db =
     (Returns (), if S Insert_security_events = Healthy
                  then db\<lparr>security_events := security_events db @
                         [\<lparr>user_id = u, event_type = t, metadata = md, event_ip_address = ip,
                           event_user_agent = ua, created_at = now\<rparr>]\<rparr>
                  else db)"
  by (cases "S Insert_security_events")
     (simp_all add: logSecurityEvent_def alertSecurityTeam_def store_defs async_defs)



subsection \<open>The secure-login route\<close>

text \<open>
  C2. A request that passes the rate limiter, carries both credentials and is reported
  locked is answered with 429; no row is added to \<open>login_attempts\<close>, and the event
  \<open>ACCOUNT_LOCKED\<close> with a null subject is appended to \<open>security_events\<close> when the
  store executes that insert.
\<close>

theorem locked_request_rejected_without_attempt_row:
  assumes "protect = Returns False"
    and "json_body req = Returns \<lparr>cred_email = Some e, cred_password = Some p\<rparr>"
    and "e \<noteq> []" and "p \<noteq> []"
    and "route_checkAccountLockout S now e (ipAddress req) db = (Returns lockout, db)"
    and "locked lockout"
  shows "\<exists>resp db'. POST S protect signInWithPassword now req db = (Returns resp, db')
           \<and> status resp = 429
           \<and> login_attempts db' = login_attempts db
           \<and> security_events db' =
               (if S Insert_security_events = Healthy
                then security_events db @
                       [\<lparr>user_id = None, event_type = ACCOUNT_LOCKED,
                         metadata = [(''email'', JString e),
                                     (''reason'', JString ''Too many failed attempts'')],
                         event_ip_address = ipAddress req, event_user_agent = userAgent req,
                         created_at = now\<rparr>]
                else security_events db)"
  using assms
  by (simp add: POST_def logSecurityEvent_effect async_defs)

theorem locked_request_rejected_without_attempt_row_witness:
  "\<exists>resp db'. POST healthy (Returns False) accepting 121000 alice_request
                 \<lparr>login_attempts = alice_ledger, security_events = []\<rparr> = (Returns resp, db')
     \<and> status resp = 429
     \<and> login_attempts db' = alice_ledger
     \<and> security_events db' =
          [\<lparr>user_id = None, event_type = ACCOUNT_LOCKED,
            metadata = [(''email'', JString ''alice@example.com''),
                        (''reason'', JString ''Too many failed attempts'')],
            event_ip_address = ''1.2.3.4'', event_user_agent = ''Mozilla/5.0'',
            created_at = 121000\<rparr>]"
proof -
  have r: "route_checkAccountLockout healthy 121000 ''alice@example.com''
             (ipAddress alice_request) \<lparr>login_attempts = alice_ledger, security_events = []\<rparr>
           = (Returns \<lparr>locked = True,
                       message = Some ''Account temporarily locked due to multiple failed attempts. Try again in 15 minutes.'',
                       remainingAttempts = None\<rparr>,
              \<lparr>login_attempts = alice_ledger, security_events = []\<rparr>)"
    by (simp add: route_checkAccountLockout_def store_defs async_defs is_account_locked_def
          scenario_defs minutes_def)
  have b: "json_body alice_request
             = Returns \<lparr>cred_email = Some ''alice@example.com'', cred_password = Some ''correct horse''\<rparr>"
    by (simp add: alice_request_def)
  show ?thesis
    using locked_request_rejected_without_attempt_row[OF refl b _ _ r, of accepting]
    by (simp add: alice_request_def healthy_def)
qed

text \<open>
  C6. A request that reaches the provider, and to which the provider gives a verdict, adds
  exactly one row to \<open>login_attempts\<close> when the store executes the insert; its
  \<open>successful\<close> field is the verdict, and the row is in the ledger the handler leaves
  behind with its response, 401 after a refusal and 200 after an acceptance.
\<close>

theorem provider_verdict_recorded:
  assumes "protect = Returns False"
    and "json_body req = Returns \<lparr>cred_email = Some e, cred_password = Some p\<rparr>"
    and "e \<noteq> []" and "p \<noteq> []"
    and "route_checkAccountLockout S now e (ipAddress req) db = (Returns lockout, db)"
    and "\<not> locked lockout"
    and "signInWithPassword e p = Returns res"
    and "S Insert_login_attempts = Healthy"
  shows "\<exists>resp db'. POST S protect signInWithPassword now req db = (Returns resp, db')
           \<and> login_attempts db' =
                login_attempts db @
                  [\<lparr>email = e, ip_address = ipAddress req, user_agent = userAgent req,
                    successful = (auth_error res = None), attempted_at = now\<rparr>]
           \<and> (auth_error res \<noteq> None \<longrightarrow> status resp = 401)
           \<and> (auth_error res = None \<and> auth_user res \<noteq> None \<longrightarrow> status resp = 200)"
proof (cases "auth_error res")
  case None
  then show ?thesis using assms
    by (cases "auth_user res")
       (simp_all add: POST_def route_logLoginAttempt_def logSecurityEvent_effect
          insert_login_attempts_def async_defs)
next
  case (Some m)
  then show ?thesis using assms
    by (simp add: POST_def route_logLoginAttempt_def logSecurityEvent_effect
          insert_login_attempts_def async_defs)
qed

theorem provider_verdict_recorded_witness:
  "(\<exists>resp db'. POST healthy (Returns False) accepting 121000 alice_request
                  \<lparr>login_attempts = take 3 alice_ledger, security_events = []\<rparr> = (Returns resp, db')
      \<and> login_attempts db' =
           take 3 alice_ledger @
             [\<lparr>email = ''alice@example.com'', ip_address = ''1.2.3.4'', user_agent = ''Mozilla/5.0'',
               successful = True, attempted_at = 121000\<rparr>]
      \<and> status resp = 200)
   \<and> (\<exists>resp db'. POST healthy (Returns False) refusing 121000 alice_request
                  \<lparr>login_attempts = take 3 alice_ledger, security_events = []\<rparr> = (Returns resp, db')
      \<and> login_attempts db' =
           take 3 alice_ledger @
             [\<lparr>email = ''alice@example.com'', ip_address = ''1.2.3.4'', user_agent = ''Mozilla/5.0'',
               successful = False, attempted_at = 121000\<rparr>]
      \<and> status resp = 401)"
proof -
  have r: "route_checkAccountLockout healthy 121000 ''alice@example.com''
             (ipAddress alice_request) \<lparr>login_attempts = take 3 alice_ledger, security_events = []\<rparr>
           = (Returns \<lparr>locked = False, message = None, remainingAttempts = None\<rparr>,
              \<lparr>login_attempts = take 3 alice_ledger, security_events = []\<rparr>)"
    by (simp add: route_checkAccountLockout_def store_defs async_defs is_account_locked_def
          scenario_defs minutes_def)
  have b: "json_body alice_request
             = Returns \<lparr>cred_email = Some ''alice@example.com'', cred_password = Some ''correct horse''\<rparr>"
    by (simp add: alice_request_def)
  have h: "healthy Insert_login_attempts = Healthy"
    by (simp add: healthy_def)
  have a: "accepting ''alice@example.com'' ''correct horse''
             = Returns \<lparr>auth_user = Some \<lparr>uid = ''user-1'', user_email = ''alice@example.com''\<rparr>,
                        auth_session = JString ''session-1'', auth_error = None\<rparr>"
    by (simp add: accepting_def)
  have f: "refusing ''alice@example.com'' ''correct horse''
             = Returns \<lparr>auth_user = None, auth_session = JObject [],
                        auth_error = Some ''Invalid login credentials''\<rparr>"
    by (simp add: refusing_def)
  show ?thesis
    using provider_verdict_recorded[where S = healthy and signInWithPassword = accepting,
        OF refl b _ _ r _ a h]
      provider_verdict_recorded[where S = healthy and signInWithPassword = refusing,
        OF refl b _ _ r _ f h]
    by (simp add: alice_request_def)
qed

text \<open>
  C10. When the lockout RPC is answered with an error, the route's
  \<open>checkAccountLockout\<close> reports \<open>locked\<close> with the fixed message, and a request
  that got as far as the lockout check is answered with 429 and that message; no attempt
  row is written.
\<close>

theorem lockout_rpc_error_fails_closed:
  assumes "S Rpc_is_account_locked = Error_reply m"
  shows "route_checkAccountLockout S now e i db =
           (Returns \<lparr>locked = True,
                     message = Some ''Account temporarily locked due to multiple failed attempts. Try again in 15 minutes.'',
                     remainingAttempts = None\<rparr>, db)
       \<and> (protect = Returns False
            \<and> json_body req = Returns \<lparr>cred_email = Some e, cred_password = Some p\<rparr>
            \<and> e \<noteq> [] \<and> p \<noteq> [] \<and> ipAddress req = i \<longrightarrow>
            (\<exists>db'. POST S protect signInWithPassword now req db =
               (Returns \<lparr>status = 429,
                         body = [(''error'', JString ''Account temporarily locked due to multiple failed attempts. Try again in 15 minutes.'')]\<rparr>,
                db')
              \<and> login_attempts db' = login_attempts db))"
  using assms
  by (simp add: POST_def route_checkAccountLockout_def logSecurityEvent_effect
        rpc_is_account_locked_def async_defs)

theorem lockout_rpc_error_fails_closed_witness:
  "route_checkAccountLockout rpc_failing 121000 ''alice@example.com'' ''1.2.3.4''
      \<lparr>login_attempts = [], security_events = []\<rparr>
     = (Returns \<lparr>locked = True,
                 message = Some ''Account temporarily locked due to multiple failed attempts. Try again in 15 minutes.'',
                 remainingAttempts = None\<rparr>, \<lparr>login_attempts = [], security_events = []\<rparr>)
   \<and> (\<exists>db'. POST rpc_failing (Returns False) accepting 121000 alice_request
               \<lparr>login_attempts = [], security_events = []\<rparr>
             = (Returns \<lparr>status = 429,
                         body = [(''error'', JString ''Account temporarily locked due to multiple failed attempts. Try again in 15 minutes.'')]\<rparr>,
                db')
           \<and> login_attempts db' = [])"
proof -
  have s: "rpc_failing Rpc_is_account_locked = Error_reply ''connection refused''"
    by (simp add: rpc_failing_def)
  show ?thesis
    using s lockout_rpc_error_fails_closed[of rpc_failing "''connection refused''" 121000
        "''alice@example.com''" "''1.2.3.4''"
        "\<lparr>login_attempts = [], security_events = []\<rparr>" "Returns False" alice_request
        "''correct horse''" accepting]
    by (simp add: alice_request_def)
qed

subsection \<open>Clearing the failures of a pair\<close>

lemma route_checkAccountLockout_effect:
  "route_checkAccountLockout S now e i db =
     (case S Rpc_is_account_locked of
        Healthy \<Rightarrow>
          Returns (if is_account_locked (login_attempts db) now e i
                   then \<lparr>locked = True,
                         message = Some ''Account temporarily locked due to multiple failed attempts. Try again in 15 minutes.'',
                         remainingAttempts = None\<rparr>
                   else \<lparr>locked = False, message = None, remainingAttempts = None\<rparr>)
      | Error_reply m \<Rightarrow>
          Returns \<lparr>locked = True,
                   message = Some ''Account temporarily locked due to multiple failed attempts. Try again in 15 minutes.'',
                   remainingAttempts = None\<rparr>
      | Rejects m \<Rightarrow> Throws m, db)"
  by (cases "S Rpc_is_account_locked")
     (simp_all add: route_checkAccountLockout_def store_defs async_defs)

lemma route_logLoginAttempt_effect:
  "route_logLoginAttempt S now e i s ua db =
     (case S Insert_login_attempts of
        Healthy \<Rightarrow> (Returns (), db\<lparr>login_attempts := login_attempts db @
                        [\<lparr>email = e, ip_address = i, user_agent = ua, successful = s,
                          attempted_at = now\<rparr>]\<rparr>)
      | Error_reply m \<Rightarrow> (Returns (), db)
      | Rejects m \<Rightarrow> (Throws m, db))"
  by (cases "S Insert_login_attempts")
     (simp_all add: route_logLoginAttempt_def store_defs async_defs)

lemma try_catch_Returns:
  assumes "try_catch m h db = (Returns r, db')"
  shows "m db = (Returns r, db') \<or> (\<exists>e db1. m db = (Throws e, db1) \<and> h e db1 = (Returns r, db'))"
  using assms by (auto simp: try_catch_def split: prod.splits outcome.splits)

lemma POST_success_keeps_failures:
  assumes "POST S protect signInWithPassword now req db = (Returns resp, db')"
    and "status resp = 200"
  shows "pair_failures (login_attempts db') e i W = pair_failures (login_attempts db) e i W"
  using try_catch_Returns[OF assms(1)[unfolded POST_def]] assms(2)
  apply (elim disjE exE conjE)
  subgoal
    by (auto simp: route_checkAccountLockout_effect route_logLoginAttempt_effect
          logSecurityEvent_effect async_defs pair_failures_def
        split: outcome.splits option.splits if_splits behaviour.splits)
  subgoal
    by (auto simp: logSecurityEvent_effect async_defs)
  done


lemma clearFailedAttempts_effect:
  assumes "S Delete_login_attempts = Healthy"
  shows "clearFailedAttempts S e i db =
           (Returns (), db\<lparr>login_attempts :=
                           filter (\<lambda>r. \<not> (email r = e \<and> ip_address r = i \<and> successful r = False))
                             (login_attempts db)\<rparr>)"
  using assms by (simp add: clearFailedAttempts_def store_defs async_defs)

lemma is_account_locked_le_ever:
  assumes "length (pair_failures rows e i ever) \<le> 4"
  shows "\<not> is_account_locked rows now e i"
proof -
  have "filter (\<lambda>r. email r = e \<and> ip_address r = i \<and> successful r = False
                     \<and> attempted_at r > now - minutes 15) rows
          = filter (\<lambda>r. attempted_at r > now - minutes 15) (pair_failures rows e i ever)"
    unfolding pair_failures_def ever_def by (auto intro: filter_cong)
  then have "length (filter (\<lambda>r. email r = e \<and> ip_address r = i \<and> successful r = False
                     \<and> attempted_at r > now - minutes 15) rows) \<le> length (pair_failures rows e i ever)"
    by simp
  with assms show ?thesis by (simp add: is_account_locked_def)
qed

lemma pair_failures_append:
  "pair_failures (xs @ ys) e i W = pair_failures xs e i W @ pair_failures ys e i W"
  by (simp add: pair_failures_def)

text \<open>
  \<open>clearFailedAttempts\<close>, when the store executes the delete, removes exactly the failed
  rows of the pair: its failure count is 0 and no more than 4 new failures of the pair,
  whenever they are made, lock it.
\<close>

lemma clearFailedAttempts_clears_pair:
  assumes h: "S Delete_login_attempts = Healthy"
  shows "\<exists>db'. clearFailedAttempts S e i db = (Returns (), db')
           \<and> login_attempts db' =
                filter (\<lambda>r. \<not> (email r = e \<and> ip_address r = i \<and> \<not> successful r))
                  (login_attempts db)
           \<and> pair_failures (login_attempts db') e i ever = []
           \<and> (\<forall>new now'. length (pair_failures new e i ever) \<le> 4 \<longrightarrow>
                  \<not> is_account_locked (login_attempts db' @ new) now' e i)"
proof -
  let ?db' = "db\<lparr>login_attempts :=
                   filter (\<lambda>r. \<not> (email r = e \<and> ip_address r = i \<and> successful r = False))
                     (login_attempts db)\<rparr>"
  have c: "pair_failures (login_attempts ?db') e i ever = []"
    by (auto simp: pair_failures_def filter_empty_conv)
  have "\<not> is_account_locked (login_attempts ?db' @ new) now' e i"
    if "length (pair_failures new e i ever) \<le> 4" for new now'
    using that c by (intro is_account_locked_le_ever) (simp add: pair_failures_append)
  then show ?thesis
    using clearFailedAttempts_effect[where S = S and e = e and i = i and db = db, OF h] c by auto
qed

text \<open>
  A login the provider accepts, made after four failures of the same pair: the handler
  appends the successful row and nothing is deleted.
\<close>

lemma POST_alice_accepted:
  "POST healthy (Returns False) accepting 121000 alice_request
     \<lparr>login_attempts = take 4 alice_ledger, security_events = []\<rparr>
   = (Returns \<lparr>status = 200,
               body = [(''success'', JBool True),
                       (''user'', JObject [(''id'', JString ''user-1''),
                                           (''email'', JString ''alice@example.com'')]),
                       (''session'', JString ''session-1'')]\<rparr>,
      \<lparr>login_attempts = take 4 alice_ledger @
           [\<lparr>email = ''alice@example.com'', ip_address = ''1.2.3.4'', user_agent = ''Mozilla/5.0'',
             successful = True, attempted_at = 121000\<rparr>],
       security_events =
           [\<lparr>user_id = Some ''user-1'', event_type = LOGIN_SUCCESS,
             metadata = [(''method'', JString ''password''), (''mfa_used'', JBool False)],
             event_ip_address = ''1.2.3.4'', event_user_agent = ''Mozilla/5.0'',
             created_at = 121000\<rparr>]\<rparr>)"
  by (simp add: POST_def route_checkAccountLockout_effect route_logLoginAttempt_effect
        logSecurityEvent_effect async_defs is_account_locked_def scenario_defs minutes_def)

text \<open>
  C3. A successful login does not clear the failed rows of its pair: the route never calls
  \<open>clearFailedAttempts\<close>. After four failures and an accepted login, answered with 200,
  the pair still has four failures, and one more failure locks it.
\<close>

theorem successful_login_keeps_failures:
  "fst (POST healthy (Returns False) accepting 121000 alice_request
          \<lparr>login_attempts = take 4 alice_ledger, security_events = []\<rparr>)
     = Returns \<lparr>status = 200,
                 body = [(''success'', JBool True),
                         (''user'', JObject [(''id'', JString ''user-1''),
                                             (''email'', JString ''alice@example.com'')]),
                         (''session'', JString ''session-1'')]\<rparr>
   \<and> length (pair_failures
               (login_attempts (snd (POST healthy (Returns False) accepting 121000 alice_request
                                       \<lparr>login_attempts = take 4 alice_ledger, security_events = []\<rparr>)))
               ''alice@example.com'' ''1.2.3.4'' ever) = 4
   \<and> is_account_locked
        (login_attempts (snd (POST healthy (Returns False) accepting 121000 alice_request
                                \<lparr>login_attempts = take 4 alice_ledger, security_events = []\<rparr>))
           @ [failure ''alice@example.com'' ''1.2.3.4'' 122000])
        123000 ''alice@example.com'' ''1.2.3.4''"
  unfolding POST_alice_accepted
  by (simp add: pair_failures_def ever_def is_account_locked_def scenario_defs minutes_def)

subsection \<open>Suspicious activity\<close>

lemma select_events_window:
  assumes "\<forall>ev\<in>set evs. created_at ev \<le> now"
  shows "filter (\<lambda>ev. user_id ev = Some u \<and> created_at ev \<ge> now - w) evs
           = subject_events evs u (trailing now w)"
    and "filter (\<lambda>ev. user_id ev = Some u \<and> event_type ev = LOGIN_FAILURE
                      \<and> created_at ev \<ge> now - w) evs
           = filter (\<lambda>ev. event_type ev = LOGIN_FAILURE) (subject_events evs u (trailing now w))"
  unfolding subject_events_def trailing_def using assms by (auto intro: filter_cong)

lemma detectSuspiciousActivity_effect:
  assumes "S Select_security_events = Healthy"
  shows "detectSuspiciousActivity S now u ip db =
           (Returns
              (if 5 \<le> length (filter (\<lambda>ev. user_id ev = Some u \<and> event_type ev = LOGIN_FAILURE
                                           \<and> created_at ev \<ge> now - minutes 15)
                                (security_events db))
               then \<lparr>suspicious = True, reason = Some ''Multiple failed login attempts''\<rparr>
               else if 3 < length (remdups (map event_ip_address
                                     (filter (\<lambda>ev. user_id ev = Some u
                                                   \<and> created_at ev \<ge> now - minutes 60)
                                        (security_events db))))
               then \<lparr>suspicious = True, reason = Some ''Multiple IP addresses in short time''\<rparr>
               else \<lparr>suspicious = False, reason = None\<rparr>), db)"
  using assms
  by (simp add: detectSuspiciousActivity_def select_security_events_def async_defs Let_def)

text \<open>
  C8. When the store answers the queries and no event is dated after the evaluation
  instant, \<open>detectSuspiciousActivity\<close> reports Rule A (reason
  \<^verbatim>\<open>Multiple failed login attempts\<close>) when the subject has at least 5
  \<open>LOGIN_FAILURE\<close> events in the trailing 15 minutes, otherwise Rule B (reason
  \<^verbatim>\<open>Multiple IP addresses in short time\<close>) when its events of the trailing 60
  minutes come from more than 3 distinct origin IPs, otherwise nothing suspicious.
\<close>

theorem detectSuspiciousActivity_rules:
  assumes "S Select_security_events = Healthy"
    and "\<forall>ev\<in>set (security_events db). created_at ev \<le> now"
  shows "detectSuspiciousActivity S now u ip db =
           (Returns
              (if 5 \<le> length (filter (\<lambda>ev. event_type ev = LOGIN_FAILURE)
                                (subject_events (security_events db) u (trailing now (minutes 15))))
               then \<lparr>suspicious = True, reason = Some ''Multiple failed login attempts''\<rparr>
               else if 3 < card (event_ip_address `
                                   set (subject_events (security_events db) u
                                          (trailing now (minutes 60))))
               then \<lparr>suspicious = True, reason = Some ''Multiple IP addresses in short time''\<rparr>
               else \<lparr>suspicious = False, reason = None\<rparr>), db)"
  unfolding detectSuspiciousActivity_effect[where S = S, OF assms(1)] select_events_window[OF assms(2)]
    length_remdups_card_conv set_map
  by (rule refl)

theorem detectSuspiciousActivity_rules_witness:
  "detectSuspiciousActivity healthy 6000 ''user-1'' ''1.2.3.4''
      \<lparr>login_attempts = [], security_events = failing_events\<rparr>
     = (Returns \<lparr>suspicious = True, reason = Some ''Multiple failed login attempts''\<rparr>,
        \<lparr>login_attempts = [], security_events = failing_events\<rparr>)
   \<and> detectSuspiciousActivity healthy 6000 ''user-1'' ''1.2.3.4''
      \<lparr>login_attempts = [], security_events = roaming_events\<rparr>
     = (Returns \<lparr>suspicious = True, reason = Some ''Multiple IP addresses in short time''\<rparr>,
        \<lparr>login_attempts = [], security_events = roaming_events\<rparr>)
   \<and> detectSuspiciousActivity healthy 6000 ''user-1'' ''1.2.3.4''
      \<lparr>login_attempts = [], security_events = take 3 roaming_events\<rparr>
     = (Returns \<lparr>suspicious = False, reason = None\<rparr>,
        \<lparr>login_attempts = [], security_events = take 3 roaming_events\<rparr>)"
proof -
  have h: "healthy Select_security_events = Healthy"
    by (simp add: healthy_def)
  have t: "\<forall>ev\<in>set (security_events \<lparr>login_attempts = [], security_events = failing_events\<rparr>).
             created_at ev \<le> 6000"
    "\<forall>ev\<in>set (security_events \<lparr>login_attempts = [], security_events = roaming_events\<rparr>).
             created_at ev \<le> 6000"
    "\<forall>ev\<in>set (security_events \<lparr>login_attempts = [], security_events = take 3 roaming_events\<rparr>).
             created_at ev \<le> 6000"
    by (simp_all add: scenario_defs)
  show ?thesis
    using detectSuspiciousActivity_rules[where S = healthy, OF h t(1), of "''user-1''" "''1.2.3.4''"]
      detectSuspiciousActivity_rules[where S = healthy, OF h t(2), of "''user-1''" "''1.2.3.4''"]
      detectSuspiciousActivity_rules[where S = healthy, OF h t(3), of "''user-1''" "''1.2.3.4''"]
    by (simp add: subject_events_def window_defs failing_events_def roaming_events_def event_def)
qed

lemma select_ip_window:
  assumes "\<forall>r\<in>set rows. attempted_at r \<le> now"
  shows "filter (\<lambda>a. ip_address a = ip \<and> successful a = False \<and> attempted_at a \<ge> now - w) rows
           = ip_failures rows ip (trailing now w)"
  unfolding ip_failures_def trailing_def using assms by (auto intro: filter_cong)

lemma checkSuspiciousIP_reads:
  "snd (checkSuspiciousIP S now ip db) = db"
  by (cases "S Select_login_attempts")
     (simp_all add: checkSuspiciousIP_def select_login_attempts_def async_defs Let_def)

lemma checkSuspiciousIP_effect:
  assumes "S Select_login_attempts = Healthy"
  shows "checkSuspiciousIP S now ip db =
           (Returns (10 < length (remdups (map email
                       (filter (\<lambda>a. ip_address a = ip \<and> successful a = False
                                     \<and> attempted_at a \<ge> now - minutes 60)
                          (login_attempts db))))), db)"
  using assms
  by (simp add: checkSuspiciousIP_def select_login_attempts_def async_defs Let_def)

text \<open>
  C9. When the store answers the query and no row is dated after the evaluation instant,
  \<open>checkSuspiciousIP\<close> returns true exactly when the origin IP has failed attempts
  against more than 10 distinct identities in the trailing 60 minutes; whatever the store
  does, the call leaves both tables as they were.
\<close>

theorem checkSuspiciousIP_fanout:
  assumes "S Select_login_attempts = Healthy"
    and "\<forall>r\<in>set (login_attempts db). attempted_at r \<le> now"
  shows "checkSuspiciousIP S now ip db =
           (Returns (10 < card (email ` set (ip_failures (login_attempts db) ip
                                               (trailing now (minutes 60))))), db)
       \<and> (\<forall>S' now' ip' db'. snd (checkSuspiciousIP S' now' ip' db') = db')"
proof (intro conjI allI)
  show "checkSuspiciousIP S now ip db =
           (Returns (10 < card (email ` set (ip_failures (login_attempts db) ip
                                               (trailing now (minutes 60))))), db)"
    unfolding checkSuspiciousIP_effect[where S = S, OF assms(1)] select_ip_window[OF assms(2)]
      length_remdups_card_conv set_map
    by (rule refl)
qed (rule checkSuspiciousIP_reads)

lemma one_row_per_identity:
  assumes "distinct (map email rows)"
  shows "length (filter (\<lambda>r. email r = e \<and> P r) rows) \<le> 1"
  using assms
proof (induction rows)
  case Nil
  then show ?case by simp
next
  case (Cons a rows)
  show ?case
  proof (cases "email a = e")
    case True
    then have "e \<notin> email ` set rows" using Cons.prems by auto
    then have "filter (\<lambda>r. email r = e \<and> P r) rows = []"
      by (auto simp: filter_empty_conv)
    then show ?thesis by simp
  next
    case False
    then show ?thesis using Cons by simp
  qed
qed

lemma fanout_ledger_distinct: "distinct (map email fanout_ledger)"
  by (simp add: fanout_ledger_def failure_def comp_def)

theorem checkSuspiciousIP_fanout_witness:
  "checkSuspiciousIP healthy 2000 ''5.5.5.5'' \<lparr>login_attempts = fanout_ledger, security_events = []\<rparr>
     = (Returns True, \<lparr>login_attempts = fanout_ledger, security_events = []\<rparr>)
   \<and> (\<forall>e. \<not> is_account_locked fanout_ledger 2000 e ''5.5.5.5'')
   \<and> checkSuspiciousIP healthy 2000 ''5.5.5.5''
        \<lparr>login_attempts = butlast fanout_ledger, security_events = []\<rparr>
     = (Returns False, \<lparr>login_attempts = butlast fanout_ledger, security_events = []\<rparr>)"
proof -
  have h: "healthy Select_login_attempts = Healthy"
    by (simp add: healthy_def)
  have t: "\<forall>r\<in>set (login_attempts \<lparr>login_attempts = fanout_ledger, security_events = []\<rparr>).
             attempted_at r \<le> 2000"
    "\<forall>r\<in>set (login_attempts \<lparr>login_attempts = butlast fanout_ledger, security_events = []\<rparr>).
             attempted_at r \<le> 2000"
    by (simp_all add: scenario_defs)
  have l: "\<not> is_account_locked fanout_ledger 2000 e ''5.5.5.5''" for e
  proof -
    have "length (filter (\<lambda>r. email r = e \<and> (ip_address r = ''5.5.5.5'' \<and> successful r = False
                                 \<and> attempted_at r > 2000 - minutes 15)) fanout_ledger) \<le> 1"
      by (rule one_row_per_identity[OF fanout_ledger_distinct])
    then show ?thesis by (simp add: is_account_locked_def)
  qed
  show ?thesis
    using l checkSuspiciousIP_fanout[where S = healthy, OF h t(1), of "''5.5.5.5''"]
      checkSuspiciousIP_fanout[where S = healthy, OF h t(2), of "''5.5.5.5''"]
    by (simp add: ip_failures_def window_defs fanout_ledger_def failure_def)
qed

end
